theory Spec2Isabelle
  imports Main "HOL-Library.Word"
begin

section \<open>Values shared by the transaction pipeline\<close>

text \<open>
  The wallet's transaction module throws plain JavaScript \<^verbatim>\<open>Error\<close> objects that
  differ only in their message, so a thrown value is modelled by its message. A
  \<^verbatim>\<open>TypeError\<close> is what the runtime itself raises (calling a method a value does
  not have). Every function that can throw returns \<open>error + 'a\<close>, \<open>Inl\<close> being the throw;
  \<^verbatim>\<open>await\<close> of a rejected promise is the same \<open>Inl\<close>.
\<close>

datatype error = Error string | TypeError string

text \<open>
  \<^verbatim>\<open>TransactionVersion\<close> of the transactions library has the two members Mainnet and
  Testnet; a decoded payload may carry any other value in the \<^verbatim>\<open>version\<close> slot, which
  is \<open>OtherVersion\<close> (a value equal to neither member).
\<close>

datatype transactionVersion = Mainnet | Testnet | OtherVersion nat

text \<open>
  A network object is either one of the two library defaults (\<^verbatim>\<open>new StacksMainnet()\<close>,
  \<^verbatim>\<open>new StacksTestnet()\<close>) or a descriptor carried by the payload. Of a descriptor the
  code reads \<^verbatim>\<open>version\<close> and tests whether the property
  \<^verbatim>\<open>getTransferFeeEstimateApiUrl\<close> is there (a descriptor that went through JSON has
  lost its methods); \<open>coreApiUrl\<close> stands for what else it carries.
\<close>

record descriptor =
  version :: transactionVersion
  getTransferFeeEstimateApiUrl :: bool
  coreApiUrl :: string

datatype network = StacksMainnet | StacksTestnet | Custom descriptor

fun networkVersion :: "network \<Rightarrow> transactionVersion" where
  "networkVersion StacksMainnet = Mainnet"
| "networkVersion StacksTestnet = Testnet"
| "networkVersion (Custom d) = version d"

fun hasFeeEstimateApiUrl :: "network \<Rightarrow> bool" where
  "hasFeeEstimateApiUrl StacksMainnet = True"
| "hasFeeEstimateApiUrl StacksTestnet = True"
| "hasFeeEstimateApiUrl (Custom d) = getTransferFeeEstimateApiUrl d"

text \<open>
  \<^verbatim>\<open>TransactionTypes\<close> of the connect library is a string enum with three members. A
  payload decoded from a token can carry any other string as its tag: \<open>OtherType s\<close>, for
  a string \<open>s\<close> that is none of the three enum values. \<open>tagText\<close> is what a template
  literal prints for a tag.
\<close>

datatype transactionTypes = ContractCall | ContractDeploy | STXTransfer | OtherType string

fun tagText :: "transactionTypes \<Rightarrow> string" where
  "tagText ContractCall = ''contract_call''"
| "tagText ContractDeploy = ''smart_contract''"
| "tagText STXTransfer = ''token_transfer''"
| "tagText (OtherType s) = s"

text \<open>
  The amount of a structured post-condition as it can arrive: a string, a JavaScript
  number (integral here), or an arbitrary-precision \<^verbatim>\<open>BN\<close> object. \<open>truthyVal\<close> is
  JavaScript's truthiness: the empty string and the number zero are falsy, an object is
  always truthy.
\<close>

datatype jsval = Str string | Num int | Big int

fun truthyVal :: "jsval \<Rightarrow> bool" where
  "truthyVal (Str s) = (s \<noteq> [])"
| "truthyVal (Num n) = (n \<noteq> 0)"
| "truthyVal (Big b) = True"

text \<open>Truthiness of an optional string property: absent and empty are both falsy.\<close>

fun truthyStr :: "string option \<Rightarrow> bool" where
  "truthyStr None = False"
| "truthyStr (Some s) = (s \<noteq> [])"

text \<open>
  A structured post-condition: \<open>amount\<close> is \<open>None\<close> when the object has no
  \<^verbatim>\<open>amount\<close> property; every other property lives in the record's extension, which
  the spread \<^verbatim>\<open>{...postCondition, amount: _}\<close> copies.
\<close>

record postCondition =
  amount :: "jsval option"

datatype 'p postConditionEntry = Hex string | Structured "'p postCondition_scheme"

record 'p transactionPayload =
  txType :: transactionTypes
  network :: "network option"
  publicKey :: string
  stxAddress :: "string option"
  postConditionMode :: "nat option"
  postConditions :: "'p postConditionEntry list option"
  contractName :: string
  contractAddress :: string
  functionName :: string
  functionArgs :: "string list"
  codeBody :: string
  recipient :: string
  memo :: string
  amount :: string

section \<open>Request Verifier\<close>

record account =
  stxPrivateKey :: string
  appsKey :: string
  salt :: string

record wallet =
  accounts :: "account list"

record 'p token =
  header :: string
  payload :: "'p transactionPayload"
  signature :: string

text \<open>
  The library functions the verifier calls. \<open>verifyAsync alg key tok\<close> is
  \<^verbatim>\<open>new TokenVerifier(alg, key).verifyAsync(tok)\<close>; it and \<open>decodeToken\<close> can throw.
\<close>

record 'p crypto =
  decodeToken :: "string \<Rightarrow> error + 'p token"
  verifyAsync :: "string \<Rightarrow> string \<Rightarrow> string \<Rightarrow> error + bool"
  getAppPrivateKey :: "account \<Rightarrow> string \<Rightarrow> string"
  getPublicKeyFromPrivate :: "string \<Rightarrow> string"
  getAddressFromPrivateKey :: "string \<Rightarrow> transactionVersion \<Rightarrow> string"

definition getTransactionVersionFromRequest ::
  "'p transactionPayload \<Rightarrow> error + transactionVersion" where
  "getTransactionVersionFromRequest tx =
     (case network tx of
        None \<Rightarrow> Inr Mainnet
      | Some n \<Rightarrow>
          if networkVersion n \<notin> set [Mainnet, Testnet]
          then Inl (Error ''Invalid network version provided'')
          else Inr (networkVersion n))"

definition UNAUTHORIZED_TX_REQUEST :: string where
  "UNAUTHORIZED_TX_REQUEST = ''The transaction request provided is not signed by this wallet.''"

text \<open>The callback that \<^verbatim>\<open>wallet.accounts.find\<close> runs on each account, in order.\<close>

definition accountMatches ::
  "'p crypto \<Rightarrow> string \<Rightarrow> string option \<Rightarrow> transactionVersion \<Rightarrow> string \<Rightarrow> account \<Rightarrow> bool"
  where
  "accountMatches lib pubKey stxAddr txVersion appDomain acct =
     (let appPrivateKey = getAppPrivateKey lib acct appDomain;
          appPublicKey = getPublicKeyFromPrivate lib appPrivateKey
      in if appPublicKey \<noteq> pubKey then False
         else if \<not> truthyStr stxAddr then True
         else let accountStxAddress = getAddressFromPrivateKey lib (stxPrivateKey acct) txVersion
              in if stxAddr \<noteq> Some accountStxAddress then False else True)"

definition verifyTxRequest ::
  "'p crypto \<Rightarrow> string \<Rightarrow> wallet \<Rightarrow> string \<Rightarrow> error + 'p transactionPayload" where
  "verifyTxRequest lib requestToken wal appDomain =
     (case decodeToken lib requestToken of
        Inl e \<Rightarrow> Inl e
      | Inr tok \<Rightarrow>
          let tx = payload tok in
          (case getTransactionVersionFromRequest tx of
             Inl e \<Rightarrow> Inl e
           | Inr txVersion \<Rightarrow>
               (case verifyAsync lib ''ES256k'' (publicKey tx) requestToken of
                  Inl e \<Rightarrow> Inl e
                | Inr isSigned \<Rightarrow>
                    if \<not> isSigned then Inl (Error ''Transaction request is not signed'')
                    else
                      (case find (accountMatches lib (publicKey tx) (stxAddress tx) txVersion appDomain)
                              (accounts wal) of
                         None \<Rightarrow> Inl (Error UNAUTHORIZED_TX_REQUEST)
                       | Some foundAccount \<Rightarrow> Inr tx))))"

section \<open>Buffers and hexadecimal text\<close>

text \<open>
  A \<^verbatim>\<open>Buffer\<close> is a list of bytes. \<open>toHex\<close> is \<^verbatim>\<open>buf.toString('hex')\<close>: two
  lower-case digits per byte. \<open>bufferFromHex\<close> is \<^verbatim>\<open>Buffer.from(s, 'hex')\<close>: it
  decodes pairs of hexadecimal digits and stops at the first pair that is not one (a
  trailing single character is dropped); it never throws.
\<close>

type_synonym buffer = "8 word list"

definition hexDigit :: "nat \<Rightarrow> char" where
  "hexDigit n = ''0123456789abcdef'' ! (n mod 16)"

definition byteHex :: "8 word \<Rightarrow> string" where
  "byteHex b = [hexDigit (unat b div 16), hexDigit (unat b mod 16)]"

definition toHex :: "buffer \<Rightarrow> string" where
  "toHex buf = concat (map byteHex buf)"

definition hexValue :: "char \<Rightarrow> nat option" where
  "hexValue c =
     (let k = of_char c :: nat
      in if 48 \<le> k \<and> k \<le> 57 then Some (k - 48)
         else if 97 \<le> k \<and> k \<le> 102 then Some (k - 87)
         else if 65 \<le> k \<and> k \<le> 70 then Some (k - 55)
         else None)"

fun bufferFromHex :: "string \<Rightarrow> buffer" where
  "bufferFromHex (a # b # rest) =
     (case (hexValue a, hexValue b) of
        (Some hi, Some lo) \<Rightarrow> of_nat (16 * hi + lo) # bufferFromHex rest
      | _ \<Rightarrow> [])"
| "bufferFromHex _ = []"

text \<open>
  \<^verbatim>\<open>BufferReader.fromBuffer\<close> wraps a buffer in a reader whose read position is the
  start of the buffer.
\<close>

record bufferReader =
  buffer :: buffer
  offset :: nat

definition fromBuffer :: "buffer \<Rightarrow> bufferReader" where
  "fromBuffer buf = \<lparr>buffer = buf, offset = 0\<rparr>"

text \<open>
  \<^verbatim>\<open>Array.prototype.map\<close> with a callback that can throw: the callback runs on the
  elements in order and the first throw ends the whole call.
\<close>

fun mapThrowing :: "('a \<Rightarrow> error + 'b) \<Rightarrow> 'a list \<Rightarrow> error + 'b list" where
  "mapThrowing f [] = Inr []"
| "mapThrowing f (x # xs) =
     (case f x of
        Inl e \<Rightarrow> Inl e
      | Inr y \<Rightarrow> (case mapThrowing f xs of Inl e \<Rightarrow> Inl e | Inr ys \<Rightarrow> Inr (y # ys)))"

section \<open>Payload Normalizer and Transaction Builder\<close>

text \<open>
  The functions of the transactions library and of \<^verbatim>\<open>bn.js\<close> that the builder
  calls. \<open>newBN v base\<close> is \<^verbatim>\<open>new BN(v, base)\<close>; the constructor can throw (it
  asserts that a number is below \<open>2^53\<close>, and may refuse a malformed string). The three
  transaction constructors take the properties of their options object in the order the
  source writes them:
  \<^item> \<open>makeContractCall\<close>: contractName, contractAddress, functionName, senderKey,
    functionArgs, nonce, postConditionMode, postConditions, network;
  \<^item> \<open>makeContractDeploy\<close>: contractName, codeBody, nonce, senderKey, postConditionMode,
    postConditions, network;
  \<^item> \<open>makeSTXTokenTransfer\<close>: recipient, memo, senderKey, amount, nonce, network.
\<close>

record ('cv, 'p, 'tx) stacks =
  deserializeCV :: "buffer \<Rightarrow> error + 'cv"
  deserializePostCondition :: "bufferReader \<Rightarrow> error + 'p postCondition_scheme"
  newBN :: "jsval \<Rightarrow> nat \<Rightarrow> error + int"
  makeContractCall ::
    "string \<Rightarrow> string \<Rightarrow> string \<Rightarrow> string \<Rightarrow> 'cv list \<Rightarrow> int option \<Rightarrow> nat option \<Rightarrow>
     'p postCondition_scheme list option \<Rightarrow> network option \<Rightarrow> error + 'tx"
  makeContractDeploy ::
    "string \<Rightarrow> string \<Rightarrow> int option \<Rightarrow> string \<Rightarrow> nat option \<Rightarrow>
     'p postCondition_scheme list option \<Rightarrow> network option \<Rightarrow> error + 'tx"
  makeSTXTokenTransfer ::
    "string \<Rightarrow> string \<Rightarrow> string \<Rightarrow> int \<Rightarrow> int option \<Rightarrow> network option \<Rightarrow> error + 'tx"

text \<open>The callback of \<^verbatim>\<open>postConditions?.map\<close> in \<^verbatim>\<open>getPostConditions\<close>.\<close>

definition normalizePostCondition ::
  "('cv, 'p, 'tx) stacks \<Rightarrow> 'p postConditionEntry \<Rightarrow> error + 'p postCondition_scheme" where
  "normalizePostCondition lib entry =
     (case entry of
        Hex s \<Rightarrow> deserializePostCondition lib (fromBuffer (bufferFromHex s))
      | Structured pc \<Rightarrow>
          (case postCondition.amount pc of
             None \<Rightarrow> Inr pc
           | Some v \<Rightarrow>
               if truthyVal v
               then (case newBN lib v 16 of
                       Inl e \<Rightarrow> Inl e
                     | Inr b \<Rightarrow> Inr (pc\<lparr>postCondition.amount := Some (Big b)\<rparr>))
               else Inr pc))"

definition getPostConditions ::
  "('cv, 'p, 'tx) stacks \<Rightarrow> 'p postConditionEntry list option \<Rightarrow>
   error + 'p postCondition_scheme list option" where
  "getPostConditions lib pcs =
     (case pcs of
        None \<Rightarrow> Inr None
      | Some entries \<Rightarrow>
          (case mapThrowing (normalizePostCondition lib) entries of
             Inl e \<Rightarrow> Inl e
           | Inr out \<Rightarrow> Inr (Some out)))"

text \<open>
  \<^verbatim>\<open>nonce !== undefined ? new BN(nonce, 10) : undefined\<close>, which throws when the
  constructor does.
\<close>

definition nonceBN :: "('cv, 'p, 'tx) stacks \<Rightarrow> int option \<Rightarrow> error + int option" where
  "nonceBN lib nonce =
     (case nonce of
        None \<Rightarrow> Inr None
      | Some n \<Rightarrow> (case newBN lib (Num n) 10 of Inl e \<Rightarrow> Inl e | Inr b \<Rightarrow> Inr (Some b)))"

text \<open>
  Each of the three functions evaluates the properties of the options object in the order
  they are written, and the first one that throws ends the call: in
  \<open>generateContractCallTx\<close> the arguments are decoded first, then the nonce is built,
  then the post-conditions are normalized.
\<close>

definition generateContractCallTx ::
  "('cv, 'p, 'tx) stacks \<Rightarrow> 'p transactionPayload \<Rightarrow> string \<Rightarrow> int option \<Rightarrow> error + 'tx" where
  "generateContractCallTx lib txData senderKey nonce =
     (case mapThrowing (\<lambda>arg. deserializeCV lib (bufferFromHex arg)) (functionArgs txData) of
        Inl e \<Rightarrow> Inl e
      | Inr args \<Rightarrow>
          (case nonceBN lib nonce of
             Inl e \<Rightarrow> Inl e
           | Inr nonceValue \<Rightarrow>
               (case getPostConditions lib (postConditions txData) of
                  Inl e \<Rightarrow> Inl e
                | Inr pcs \<Rightarrow>
                    makeContractCall lib (contractName txData) (contractAddress txData)
                      (functionName txData) senderKey args nonceValue
                      (postConditionMode txData) pcs (network txData))))"

definition generateContractDeployTx ::
  "('cv, 'p, 'tx) stacks \<Rightarrow> 'p transactionPayload \<Rightarrow> string \<Rightarrow> int option \<Rightarrow> error + 'tx" where
  "generateContractDeployTx lib txData senderKey nonce =
     (case nonceBN lib nonce of
        Inl e \<Rightarrow> Inl e
      | Inr nonceValue \<Rightarrow>
          (case getPostConditions lib (postConditions txData) of
             Inl e \<Rightarrow> Inl e
           | Inr pcs \<Rightarrow>
               makeContractDeploy lib (contractName txData) (codeBody txData) nonceValue
                 senderKey (postConditionMode txData) pcs (network txData)))"

definition generateSTXTransferTx ::
  "('cv, 'p, 'tx) stacks \<Rightarrow> 'p transactionPayload \<Rightarrow> string \<Rightarrow> int option \<Rightarrow> error + 'tx" where
  "generateSTXTransferTx lib txData senderKey nonce =
     (case newBN lib (Str (transactionPayload.amount txData)) 10 of
        Inl e \<Rightarrow> Inl e
      | Inr amountValue \<Rightarrow>
          (case nonceBN lib nonce of
             Inl e \<Rightarrow> Inl e
           | Inr nonceValue \<Rightarrow>
               makeSTXTokenTransfer lib (recipient txData) (memo txData) senderKey
                 amountValue nonceValue (network txData)))"

text \<open>
  The first block of \<^verbatim>\<open>generateTransaction\<close>: when the payload's network is missing
  or lacks the fee-estimate method, \<^verbatim>\<open>txData.network\<close> is overwritten with a default.
\<close>

definition resolveNetwork :: "'p transactionPayload \<Rightarrow> 'p transactionPayload" where
  "resolveNetwork txData =
     (if \<not> (case network txData of None \<Rightarrow> False | Some n \<Rightarrow> hasFeeEstimateApiUrl n)
      then txData\<lparr>network :=
             Some (if map_option networkVersion (network txData) = Some Mainnet
                   then StacksMainnet else StacksTestnet)\<rparr>
      else txData)"

text \<open>
  The \<^verbatim>\<open>switch\<close> leaves \<^verbatim>\<open>tx\<close> at \<^verbatim>\<open>null\<close> in its default branch only; a
  constructor that throws ends the call with its error.
\<close>

definition generateTransaction ::
  "('cv, 'p, 'tx) stacks \<Rightarrow> 'p transactionPayload \<Rightarrow> string \<Rightarrow> int option \<Rightarrow> error + 'tx" where
  "generateTransaction lib txData0 senderKey nonce =
     (let txData = resolveNetwork txData0;
          tx = (case txType txData of
                  ContractCall \<Rightarrow> map_sum id Some (generateContractCallTx lib txData senderKey nonce)
                | ContractDeploy \<Rightarrow> map_sum id Some (generateContractDeployTx lib txData senderKey nonce)
                | STXTransfer \<Rightarrow> map_sum id Some (generateSTXTransferTx lib txData senderKey nonce)
                | OtherType s \<Rightarrow> Inr None)
      in case tx of
           Inl e \<Rightarrow> Inl e
         | Inr None \<Rightarrow> Inl (Error (''Invalid Transaction Type: '' @ tagText (txType txData)))
         | Inr (Some t) \<Rightarrow> Inr t)"

section \<open>Broadcaster\<close>

text \<open>
  \<^verbatim>\<open>String.prototype.replace\<close> with a string pattern replaces the first occurrence of
  the pattern only, and returns the string unchanged when there is none. (The replacement
  is taken literally here: the source's replacement is the empty string.)
\<close>

fun replaceFirst :: "string \<Rightarrow> string \<Rightarrow> string \<Rightarrow> string" where
  "replaceFirst pat rep [] = (if pat = [] then rep else [])"
| "replaceFirst pat rep (c # cs) =
     (if take (length pat) (c # cs) = pat then rep @ drop (length pat) (c # cs)
      else c # replaceFirst pat rep cs)"

definition dquote :: char where
  "dquote = CHR 0x22"

text \<open>
  A response carries the \<^verbatim>\<open>ok\<close> flag and the text of its body.
  \<^verbatim>\<open>res.json()\<close> is the platform decoding that text as JSON: it resolves to a
  string, or to an object whose properties are strings (the node's rejection body), or
  it rejects. \<open>property\<close> reads a property; on a string, or on an object without it,
  the result is \<^verbatim>\<open>undefined\<close>.
\<close>

datatype jsonBody = JString string | JObject "(string \<times> string) list"

fun property :: "jsonBody \<Rightarrow> string \<Rightarrow> string option" where
  "property (JString s) name = None"
| "property (JObject props) name = map_of props name"

text \<open>A value inside a template literal: \<^verbatim>\<open>undefined\<close> prints as the word.\<close>

fun templateText :: "string option \<Rightarrow> string" where
  "templateText None = ''undefined''"
| "templateText (Some s) = s"

record response =
  ok :: bool
  bodyText :: string

text \<open>
  What the broadcaster calls: \<^verbatim>\<open>tx.serialize()\<close>,
  \<^verbatim>\<open>new RPCClient(nodeUrl).broadcastTX(serialized)\<close> (which can fail at the
  transport) and, on the response, \<^verbatim>\<open>res.json()\<close>.
\<close>

record 'tx rpc =
  serialize :: "'tx \<Rightarrow> buffer"
  broadcastTX :: "string \<Rightarrow> buffer \<Rightarrow> error + response"
  json :: "string \<Rightarrow> error + jsonBody"

record finishedTxPayload =
  txId :: string
  txRaw :: string

definition finishTransaction ::
  "'tx rpc \<Rightarrow> 'tx \<Rightarrow> string \<Rightarrow> error + finishedTxPayload" where
  "finishTransaction lib tx nodeUrl =
     (let serialized = serialize lib tx in
      case broadcastTX lib nodeUrl serialized of
        Inl e \<Rightarrow> Inl e
      | Inr res \<Rightarrow>
          if ok res then
            (case json lib (bodyText res) of
               Inl e \<Rightarrow> Inl e
             | Inr (JString txIdJson) \<Rightarrow>
                 Inr \<lparr>txId = ''0x'' @ replaceFirst [dquote] [] txIdJson,
                      txRaw = ''0x'' @ toHex serialized\<rparr>
             | Inr (JObject props) \<Rightarrow> Inl (TypeError ''txIdJson.replace is not a function''))
          else
            (case json lib (bodyText res) of
               Inl e \<Rightarrow> Inl e
             | Inr body \<Rightarrow>
                 if truthyStr (property body ''error'')
                 then Inl (Error (templateText (property body ''error'') @ '' - '' @
                                  templateText (property body ''reason'')))
                 else Inl (Error ''Unable to submit transaction'')))"

section \<open>Submission Orchestrator\<close>

text \<open>
  The handler's observable behaviour is the sequence of calls it makes on the user
  interface and on its collaborators. A run is the list of calls made so far, with how
  it ended: \<open>Inr\<close> for normal completion, \<open>Inl\<close> for an exception that escaped.
\<close>

datatype screenPaths = HOME | OtherScreen string

datatype call =
    SetIsLoading
  | BroadcastTransaction
  | DoSetLatestNonce
  | Revalidate
  | ToastError string
  | ToastSuccess string
  | OnClose
  | SetIsIdle
  | DoChangeScreen screenPaths

type_synonym 'a run = "call list \<times> (error + 'a)"

definition perform :: "call \<Rightarrow> error + 'a \<Rightarrow> 'a run" where
  "perform c outcome = ([c], outcome)"

definition andThen :: "'a run \<Rightarrow> ('a \<Rightarrow> 'b run) \<Rightarrow> 'b run" where
  "andThen m f =
     (case snd m of
        Inl e \<Rightarrow> (fst m, Inl e)
      | Inr a \<Rightarrow> (fst m @ fst (f a), snd (f a)))"

definition tryCatch :: "'a run \<Rightarrow> (error \<Rightarrow> 'a run) \<Rightarrow> 'a run" where
  "tryCatch m handler =
     (case snd m of
        Inl e \<Rightarrow> (fst m @ fst (handler e), snd (handler e))
      | Inr a \<Rightarrow> m)"

text \<open>
  \<^verbatim>\<open>broadcastTransaction\<close> of the transactions library resolves to the transaction id
  (a string) or to a rejection object with a \<^verbatim>\<open>reason\<close>.
\<close>

datatype txBroadcastResult = TxBroadcastResultOk string | TxBroadcastResultRejected string

fun getErrorMessage :: "string \<Rightarrow> string" where
  "getErrorMessage reason =
     (if reason = ''ConflictingNonceInMempool'' then ''Nonce conflict, try again soon.''
      else if reason = ''BadNonce'' then ''Incorrect nonce.''
      else if reason = ''NotEnoughFunds'' then ''Not enough funds.''
      else if reason = ''FeeTooLow'' then ''Fee is too low.''
      else ''Something went wrong'')"

text \<open>
  Everything the handler calls: the broadcast, the nonce update and the revalidation,
  the two toasts, the caller's close callback, the loading setters and the screen
  change. Each of them is a call that can throw or reject.
\<close>

record ('tx, 'net) collaborators =
  broadcastTransaction :: "'tx \<Rightarrow> 'net \<Rightarrow> error + txBroadcastResult"
  doSetLatestNonce :: "'tx \<Rightarrow> error + unit"
  revalidate :: "error + unit"
  toastError :: "string \<Rightarrow> error + unit"
  toastSuccess :: "string \<Rightarrow> error + unit"
  setIsLoading :: "error + unit"
  onClose :: "error + unit"
  setIsIdle :: "error + unit"
  doChangeScreen :: "screenPaths \<Rightarrow> error + unit"

text \<open>
  The handler that \<^verbatim>\<open>useHandleSubmitTransaction\<close> returns. The three cleanup calls are
  statements after the \<^verbatim>\<open>try\<close>/\<^verbatim>\<open>catch\<close> (there is no \<^verbatim>\<open>finally\<close>): an
  exception that escapes before one of them skips it.
\<close>

definition useHandleSubmitTransaction ::
  "('tx, 'net) collaborators \<Rightarrow> 'tx option \<Rightarrow> 'net \<Rightarrow> unit run" where
  "useHandleSubmitTransaction env transaction stacksNetwork =
     andThen (perform SetIsLoading (setIsLoading env)) (\<lambda>_.
     andThen
       (case transaction of
          None \<Rightarrow> ([], Inr ())
        | Some tx \<Rightarrow>
            tryCatch
              (andThen (perform BroadcastTransaction (broadcastTransaction env tx stacksNetwork))
                 (\<lambda>response.
                    case response of
                      TxBroadcastResultRejected reason \<Rightarrow>
                        perform (ToastError (getErrorMessage reason))
                          (toastError env (getErrorMessage reason))
                    | TxBroadcastResultOk txid \<Rightarrow>
                        andThen (perform DoSetLatestNonce (doSetLatestNonce env tx)) (\<lambda>_.
                        andThen (perform Revalidate (revalidate env)) (\<lambda>_.
                        perform (ToastSuccess ''Transaction submitted!'')
                          (toastSuccess env ''Transaction submitted!'')))))
              (\<lambda>e. perform (ToastError ''Something went wrong'')
                      (toastError env ''Something went wrong'')))
       (\<lambda>_.
     andThen (perform OnClose (onClose env)) (\<lambda>_.
     andThen (perform SetIsIdle (setIsIdle env)) (\<lambda>_.
     perform (DoChangeScreen HOME) (doChangeScreen env HOME)))))"

section \<open>Stand-in libraries and sample inputs\<close>

text \<open>
  Stand-ins for the libraries and a few concrete requests, used to run the definitions
  above on explicit inputs. The stand-in key derivation concatenates its arguments, so
  two accounts share an application key exactly when they share \<open>appsKey\<close>; the stand-in
  verifier accepts every token, and the stand-in decoder returns a fixed payload.
\<close>

definition mockCrypto :: "unit transactionPayload \<Rightarrow> unit crypto" where
  "mockCrypto p =
     \<lparr>decodeToken = (\<lambda>t. Inr \<lparr>header = ''ES256K'', payload = p, signature = ''sig''\<rparr>),
      verifyAsync = (\<lambda>alg key t. Inr True),
      getAppPrivateKey = (\<lambda>acct appDomain. appsKey acct @ ''@'' @ appDomain),
      getPublicKeyFromPrivate = (\<lambda>k. ''pub:'' @ k),
      getAddressFromPrivateKey =
        (\<lambda>k v. (case v of Mainnet \<Rightarrow> ''SP'' | Testnet \<Rightarrow> ''ST'' | OtherVersion n \<Rightarrow> ''??'') @ k)\<rparr>"

definition failingVerifier :: "string \<Rightarrow> string \<Rightarrow> string \<Rightarrow> error + bool" where
  "failingVerifier alg key t = Inl (Error ''the verifier was called'')"

definition firstAccount :: account where
  "firstAccount = \<lparr>stxPrivateKey = ''k1'', appsKey = ''apps1'', salt = ''s''\<rparr>"

definition secondAccount :: account where
  "secondAccount = \<lparr>stxPrivateKey = ''k2'', appsKey = ''apps1'', salt = ''s''\<rparr>"

definition strangerAccount :: account where
  "strangerAccount = \<lparr>stxPrivateKey = ''k9'', appsKey = ''apps9'', salt = ''s''\<rparr>"

definition transferRequest :: "unit transactionPayload" where
  "transferRequest =
     \<lparr>txType = STXTransfer, network = None, publicKey = ''pub:apps1@app.example'',
      stxAddress = None, postConditionMode = None, postConditions = None,
      contractName = ''counter'', contractAddress = ''SPcontract'', functionName = ''increment'',
      functionArgs = [], codeBody = ''(define-public (f) (ok 1))'',
      recipient = ''SPrecipient'', memo = ''hello'', amount = ''100''\<rparr>"

definition oddDescriptor :: descriptor where
  "oddDescriptor =
     \<lparr>version = OtherVersion 5, getTransferFeeEstimateApiUrl = False,
      coreApiUrl = ''http://localhost:3999''\<rparr>"

definition testnetDescriptor :: descriptor where
  "testnetDescriptor =
     \<lparr>version = Testnet, getTransferFeeEstimateApiUrl = False,
      coreApiUrl = ''http://localhost:3999''\<rparr>"

definition mainnetDescriptor :: descriptor where
  "mainnetDescriptor =
     \<lparr>version = Mainnet, getTransferFeeEstimateApiUrl = False,
      coreApiUrl = ''http://localhost:3999''\<rparr>"

definition capableDescriptor :: descriptor where
  "capableDescriptor =
     \<lparr>version = Testnet, getTransferFeeEstimateApiUrl = True,
      coreApiUrl = ''http://localhost:3999''\<rparr>"

text \<open>
  A stand-in for \<^verbatim>\<open>new BN(v, base)\<close>: the digits of a string are read in the given
  base, and a character that is not a digit of the base is refused; a number must be
  below \<open>2^53\<close> in absolute value, as the constructor asserts.
\<close>

fun parseDigits :: "nat \<Rightarrow> string \<Rightarrow> int \<Rightarrow> error + int" where
  "parseDigits base [] acc = Inr acc"
| "parseDigits base (c # cs) acc =
     (case hexValue c of
        None \<Rightarrow> Inl (Error ''Invalid character'')
      | Some d \<Rightarrow>
          if d < base then parseDigits base cs (acc * int base + int d)
          else Inl (Error ''Invalid character''))"

definition mockBN :: "jsval \<Rightarrow> nat \<Rightarrow> error + int" where
  "mockBN v base =
     (case v of
        Str s \<Rightarrow> parseDigits base s 0
      | Num n \<Rightarrow> if \<bar>n\<bar> < 9007199254740992 then Inr n else Inl (Error ''Assertion failed'')
      | Big b \<Rightarrow> Inr b)"

text \<open>
  Stand-in constructors: the transaction they return is a text that names the
  constructor and the network it was given.
\<close>

fun networkName :: "network option \<Rightarrow> string" where
  "networkName None = ''none''"
| "networkName (Some StacksMainnet) = ''default-mainnet''"
| "networkName (Some StacksTestnet) = ''default-testnet''"
| "networkName (Some (Custom d)) = coreApiUrl d"

definition mockStacks :: "(string, unit, string) stacks" where
  "mockStacks =
     \<lparr>deserializeCV = (\<lambda>buf. if buf = [] then Inl (Error ''empty clarity value'') else Inr (toHex buf)),
      deserializePostCondition =
        (\<lambda>r. if buffer r = [] then Inl (Error ''empty post-condition'')
             else Inr \<lparr>postCondition.amount = Some (Big (int (length (buffer r) - offset r)))\<rparr>),
      newBN = mockBN,
      makeContractCall = (\<lambda>cn ca fn key args nonce mode pcs net. Inr (''call on '' @ networkName net)),
      makeContractDeploy = (\<lambda>cn body nonce key mode pcs net. Inr (''deploy on '' @ networkName net)),
      makeSTXTokenTransfer = (\<lambda>rcp mem key amt nonce net. Inr (''transfer on '' @ networkName net))\<rparr>"

definition throwingCall ::
  "string \<Rightarrow> string \<Rightarrow> string \<Rightarrow> string \<Rightarrow> string list \<Rightarrow> int option \<Rightarrow> nat option \<Rightarrow>
   postCondition list option \<Rightarrow> network option \<Rightarrow> error + string" where
  "throwingCall cn ca fn key args nonce mode pcs net = Inl (Error ''makeContractCall was called'')"

definition throwingDeploy ::
  "string \<Rightarrow> string \<Rightarrow> int option \<Rightarrow> string \<Rightarrow> nat option \<Rightarrow>
   postCondition list option \<Rightarrow> network option \<Rightarrow> error + string" where
  "throwingDeploy cn body nonce key mode pcs net = Inl (Error ''makeContractDeploy was called'')"

definition throwingTransfer ::
  "string \<Rightarrow> string \<Rightarrow> string \<Rightarrow> int \<Rightarrow> int option \<Rightarrow> network option \<Rightarrow> error + string" where
  "throwingTransfer rcp mem key amt nonce net = Inl (Error ''makeSTXTokenTransfer was called'')"

text \<open>
  Stand-in nodes. A transaction is its own serialized form. \<open>acceptingNode\<close> accepts
  and answers with the JSON string literal of the transaction id (the id inside
  quotation marks); \<open>doubleQuotingNode\<close> accepts and answers with a JSON string whose
  content is itself the id inside quotation marks; \<open>rejectingNode\<close> rejects with a
  structured body; \<open>unreachableNode\<close> fails at the transport. The stand-in decoder
  knows these three body texts.
\<close>

definition quoted :: "string \<Rightarrow> string" where
  "quoted s = dquote # s @ [dquote]"

definition escapedQuote :: string where
  "escapedQuote = [CHR 0x5C, dquote]"

definition rejectionText :: string where
  "rejectionText =
     ''{'' @ quoted ''error'' @ '':'' @ quoted ''RejectTransaction'' @ '','' @
     quoted ''reason'' @ '':'' @ quoted ''BadNonce'' @ ''}''"

definition mockJson :: "string \<Rightarrow> error + jsonBody" where
  "mockJson t =
     (if t = quoted ''abc123'' then Inr (JString ''abc123'')
      else if t = quoted (escapedQuote @ ''abc123'' @ escapedQuote)
        then Inr (JString (quoted ''abc123''))
      else if t = rejectionText
        then Inr (JObject [(''error'', ''RejectTransaction''), (''reason'', ''BadNonce'')])
      else Inl (Error ''Unexpected token in JSON''))"

definition acceptingNode :: "buffer rpc" where
  "acceptingNode =
     \<lparr>serialize = (\<lambda>tx. tx),
      broadcastTX = (\<lambda>url buf. Inr \<lparr>ok = True, bodyText = quoted ''abc123''\<rparr>),
      json = mockJson\<rparr>"


definition rejectingNode :: "buffer rpc" where
  "rejectingNode =
     \<lparr>serialize = (\<lambda>tx. tx),
      broadcastTX = (\<lambda>url buf. Inr \<lparr>ok = False, bodyText = rejectionText\<rparr>),
      json = mockJson\<rparr>"

definition unreachableNode :: "buffer rpc" where
  "unreachableNode =
     \<lparr>serialize = (\<lambda>tx. tx),
      broadcastTX = (\<lambda>url buf. Inl (TypeError ''Failed to fetch'')),
      json = mockJson\<rparr>"

text \<open>
  Stand-in collaborators. With \<open>rejectingCollaborators\<close> the node rejects the broadcast
  for a bad nonce; with \<open>failingBookkeeping\<close> the broadcast succeeds and the nonce update
  throws; with \<open>throwingClose\<close> the caller's close callback throws. Every other call
  returns normally.
\<close>

definition rejectingCollaborators :: "(buffer, network) collaborators" where
  "rejectingCollaborators =
     \<lparr>broadcastTransaction = (\<lambda>tx net. Inr (TxBroadcastResultRejected ''BadNonce'')),
      doSetLatestNonce = (\<lambda>tx. Inr ()),
      revalidate = Inr (),
      toastError = (\<lambda>message. Inr ()),
      toastSuccess = (\<lambda>message. Inr ()),
      setIsLoading = Inr (),
      onClose = Inr (),
      setIsIdle = Inr (),
      doChangeScreen = (\<lambda>screen. Inr ())\<rparr>"

definition failingBookkeeping :: "(buffer, network) collaborators" where
  "failingBookkeeping =
     \<lparr>broadcastTransaction = (\<lambda>tx net. Inr (TxBroadcastResultOk ''abc123'')),
      doSetLatestNonce = (\<lambda>tx. Inl (Error ''nonce store unavailable'')),
      revalidate = Inr (),
      toastError = (\<lambda>message. Inr ()),
      toastSuccess = (\<lambda>message. Inr ()),
      setIsLoading = Inr (),
      onClose = Inr (),
      setIsIdle = Inr (),
      doChangeScreen = (\<lambda>screen. Inr ())\<rparr>"

definition throwingClose :: "(buffer, network) collaborators" where
  "throwingClose =
     \<lparr>broadcastTransaction = (\<lambda>tx net. Inr (TxBroadcastResultOk ''abc123'')),
      doSetLatestNonce = (\<lambda>tx. Inr ()),
      revalidate = Inr (),
      toastError = (\<lambda>message. Inr ()),
      toastSuccess = (\<lambda>message. Inr ()),
      setIsLoading = Inr (),
      onClose = Inl (Error ''onClose failed''),
      setIsIdle = Inr (),
      doChangeScreen = (\<lambda>screen. Inr ())\<rparr>"

definition sampleTx :: buffer where
  "sampleTx = [0x00, 0x01, 0xab, 0xff]"

definition targetRequest :: "unit transactionPayload" where
  "targetRequest = transferRequest\<lparr>stxAddress := Some ''SPk2''\<rparr>"

definition emptyTargetRequest :: "unit transactionPayload" where
  "emptyTargetRequest = transferRequest\<lparr>stxAddress := Some ''''\<rparr>"

definition oddRequest :: "unit transactionPayload" where
  "oddRequest = transferRequest\<lparr>network := Some (Custom oddDescriptor)\<rparr>"

definition twoAccountWallet :: wallet where
  "twoAccountWallet = \<lparr>accounts = [firstAccount, secondAccount]\<rparr>"

definition oneAccountWallet :: wallet where
  "oneAccountWallet = \<lparr>accounts = [firstAccount]\<rparr>"

definition strangerWallet :: wallet where
  "strangerWallet = \<lparr>accounts = [strangerAccount]\<rparr>"

definition callRequest :: "unit transactionPayload" where
  "callRequest = transferRequest\<lparr>txType := ContractCall\<rparr>"

definition deployRequest :: "unit transactionPayload" where
  "deployRequest = transferRequest\<lparr>txType := ContractDeploy\<rparr>"

definition bogusRequest :: "unit transactionPayload" where
  "bogusRequest = transferRequest\<lparr>txType := OtherType ''bogus''\<rparr>"

definition testnetRequest :: "unit transactionPayload" where
  "testnetRequest = transferRequest\<lparr>network := Some (Custom testnetDescriptor)\<rparr>"

definition mainnetRequest :: "unit transactionPayload" where
  "mainnetRequest = transferRequest\<lparr>network := Some (Custom mainnetDescriptor)\<rparr>"

definition capableRequest :: "unit transactionPayload" where
  "capableRequest = transferRequest\<lparr>network := Some (Custom capableDescriptor)\<rparr>"






section \<open>Properties of the Request Verifier\<close>

lemma verifyTxRequest_success:
  assumes "verifyTxRequest lib requestToken wal appDomain = Inr tx"
  shows "\<exists>tok txVersion acct.
           decodeToken lib requestToken = Inr tok \<and> tx = payload tok \<and>
           getTransactionVersionFromRequest tx = Inr txVersion \<and>
           verifyAsync lib ''ES256k'' (publicKey tx) requestToken = Inr True \<and>
           find (accountMatches lib (publicKey tx) (stxAddress tx) txVersion appDomain)
             (accounts wal) = Some acct"
  using assms
  by (auto simp: verifyTxRequest_def Let_def split: sum.splits option.splits if_splits)

lemma verifyTxRequest_after_signature:
  assumes "decodeToken lib requestToken = Inr tok"
      and "getTransactionVersionFromRequest (payload tok) = Inr txVersion"
      and "verifyAsync lib ''ES256k'' (publicKey (payload tok)) requestToken = Inr True"
  shows "verifyTxRequest lib requestToken wal appDomain =
           (case find (accountMatches lib (publicKey (payload tok)) (stxAddress (payload tok))
                         txVersion appDomain) (accounts wal) of
              None \<Rightarrow> Inl (Error UNAUTHORIZED_TX_REQUEST)
            | Some foundAccount \<Rightarrow> Inr (payload tok))"
  using assms by (simp add: verifyTxRequest_def Let_def)

lemma accountMatches_target:
  assumes "truthyStr (Some target)"
  shows "accountMatches lib pubKey (Some target) txVersion appDomain acct \<longleftrightarrow>
           getPublicKeyFromPrivate lib (getAppPrivateKey lib acct appDomain) = pubKey \<and>
           getAddressFromPrivateKey lib (stxPrivateKey acct) txVersion = target"
  using assms by (auto simp: accountMatches_def Let_def)

lemma accountMatches_no_target:
  assumes "\<not> truthyStr stxAddr"
  shows "accountMatches lib pubKey stxAddr txVersion appDomain acct \<longleftrightarrow>
           getPublicKeyFromPrivate lib (getAppPrivateKey lib acct appDomain) = pubKey"
  using assms by (auto simp: accountMatches_def Let_def)

lemma getTransactionVersionFromRequest_invalid:
  assumes "network tx = Some n"
      and "networkVersion n \<noteq> Mainnet" and "networkVersion n \<noteq> Testnet"
  shows "getTransactionVersionFromRequest tx = Inl (Error ''Invalid network version provided'')"
  using assms by (simp add: getTransactionVersionFromRequest_def)

lemma getTransactionVersionFromRequest_absent:
  assumes "network tx = None"
  shows "getTransactionVersionFromRequest tx = Inr Mainnet"
  using assms by (simp add: getTransactionVersionFromRequest_def)

text \<open>
  \<^bold>\<open>C1\<close> (as amended). The claim quantifies over every payload that declares
  \<^verbatim>\<open>stxAddress\<close>. The callback tests \<^verbatim>\<open>!stxAddress\<close>, so a declared but empty
  address is treated like an absent one and the address check is not applied: see the
  counterexample below. For a payload whose declared target address is not empty the claim
  holds: when \<open>verifyTxRequest\<close> succeeds, some account of the wallet derives the token's
  signer key and, under the resolved network version, the declared target address; and
  every account whose derived address differs from the target is rejected by the callback
  (it is skipped by the scan), whatever its derived application key.
\<close>

theorem verifyTxRequest_target_address:
  assumes "verifyTxRequest lib requestToken wal appDomain = Inr tx"
      and "stxAddress tx = Some target"
      and "target \<noteq> []"
  shows "\<exists>txVersion.
           getTransactionVersionFromRequest tx = Inr txVersion \<and>
           (\<exists>acct \<in> set (accounts wal).
              getPublicKeyFromPrivate lib (getAppPrivateKey lib acct appDomain) = publicKey tx \<and>
              getAddressFromPrivateKey lib (stxPrivateKey acct) txVersion = target) \<and>
           (\<forall>acct. getAddressFromPrivateKey lib (stxPrivateKey acct) txVersion \<noteq> target \<longrightarrow>
              \<not> accountMatches lib (publicKey tx) (stxAddress tx) txVersion appDomain acct)"
proof -
  from verifyTxRequest_success [OF assms(1)] obtain txVersion acct where
    v: "getTransactionVersionFromRequest tx = Inr txVersion" and
    f: "find (accountMatches lib (publicKey tx) (stxAddress tx) txVersion appDomain)
          (accounts wal) = Some acct"
    by blast
  have t: "truthyStr (Some target)" using assms(3) by simp
  from f have "acct \<in> set (accounts wal)" and
    "accountMatches lib (publicKey tx) (stxAddress tx) txVersion appDomain acct"
    by (auto simp: find_Some_iff)
  with assms(2) t have "\<exists>acct \<in> set (accounts wal).
      getPublicKeyFromPrivate lib (getAppPrivateKey lib acct appDomain) = publicKey tx \<and>
      getAddressFromPrivateKey lib (stxPrivateKey acct) txVersion = target"
    by (auto simp: accountMatches_target)
  moreover have "\<forall>acct. getAddressFromPrivateKey lib (stxPrivateKey acct) txVersion \<noteq> target \<longrightarrow>
      \<not> accountMatches lib (publicKey tx) (stxAddress tx) txVersion appDomain acct"
    using assms(2) t by (simp add: accountMatches_target)
  ultimately show ?thesis using v by blast
qed

text \<open>
  A wallet of two accounts that derive the same application key: the first account's
  address is not the target, so it is skipped; the second one's is, and the request is
  accepted.
\<close>

theorem verifyTxRequest_target_address_witness:
  "verifyTxRequest (mockCrypto targetRequest) ''token'' twoAccountWallet ''app.example''
     = Inr targetRequest \<and>
   stxAddress targetRequest = Some ''SPk2'' \<and>
   getTransactionVersionFromRequest targetRequest = Inr Mainnet \<and>
   getAddressFromPrivateKey (mockCrypto targetRequest) (stxPrivateKey firstAccount) Mainnet
     = ''SPk1'' \<and>
   \<not> accountMatches (mockCrypto targetRequest) (publicKey targetRequest)
       (stxAddress targetRequest) Mainnet ''app.example'' firstAccount"
proof -
  have h1: "verifyTxRequest (mockCrypto targetRequest) ''token'' twoAccountWallet ''app.example''
      = Inr targetRequest"
    by (simp add: verifyTxRequest_def getTransactionVersionFromRequest_def accountMatches_def
        mockCrypto_def targetRequest_def transferRequest_def twoAccountWallet_def
        firstAccount_def secondAccount_def)
  have h2: "stxAddress targetRequest = Some ''SPk2''"
    by (simp add: targetRequest_def transferRequest_def)
  have h3: "''SPk2'' \<noteq> []" by simp
  have v: "getTransactionVersionFromRequest targetRequest = Inr Mainnet"
    by (simp add: getTransactionVersionFromRequest_def targetRequest_def transferRequest_def)
  have a: "getAddressFromPrivateKey (mockCrypto targetRequest) (stxPrivateKey firstAccount) Mainnet
      = ''SPk1''"
    by (simp add: mockCrypto_def firstAccount_def)
  from verifyTxRequest_target_address [OF h1 h2 h3] v a
  have "\<not> accountMatches (mockCrypto targetRequest) (publicKey targetRequest)
       (stxAddress targetRequest) Mainnet ''app.example'' firstAccount"
    by auto
  with h1 h2 v a show ?thesis by blast
qed

text \<open>
  The claim as stated fails for a declared but empty \<^verbatim>\<open>stxAddress\<close>: the only account
  derives the signer key, its address \<open>''SPk1''\<close> is not the declared (empty) target, and
  the request is accepted all the same.
\<close>

theorem verifyTxRequest_empty_target_counterexample:
  "stxAddress emptyTargetRequest = Some '''' \<and>
   getAddressFromPrivateKey (mockCrypto emptyTargetRequest) (stxPrivateKey firstAccount) Mainnet
     = ''SPk1'' \<and>
   verifyTxRequest (mockCrypto emptyTargetRequest) ''token'' oneAccountWallet ''app.example''
     = Inr emptyTargetRequest"
  by (simp add: verifyTxRequest_def getTransactionVersionFromRequest_def accountMatches_def
      mockCrypto_def emptyTargetRequest_def transferRequest_def oneAccountWallet_def
      firstAccount_def)

text \<open>
  \<^bold>\<open>C2\<close> (as amended). The network version is resolved before the signature is
  checked, so a token whose signature verifies and that no account matches fails with the
  network error when its descriptor carries an unrecognised version: see the
  counterexample below. For a token that decodes, whose network version resolves (the
  descriptor is absent, or its version is Mainnet or Testnet), whose signature verifies
  and that no account of the wallet matches, \<open>verifyTxRequest\<close> fails with exactly the
  fixed message.
\<close>

theorem verifyTxRequest_unauthorized:
  assumes "decodeToken lib requestToken = Inr tok"
      and "getTransactionVersionFromRequest (payload tok) = Inr txVersion"
      and "verifyAsync lib ''ES256k'' (publicKey (payload tok)) requestToken = Inr True"
      and "\<forall>acct \<in> set (accounts wal).
             \<not> accountMatches lib (publicKey (payload tok)) (stxAddress (payload tok))
                 txVersion appDomain acct"
  shows "verifyTxRequest lib requestToken wal appDomain =
           Inl (Error ''The transaction request provided is not signed by this wallet.'')"
proof -
  have "find (accountMatches lib (publicKey (payload tok)) (stxAddress (payload tok))
          txVersion appDomain) (accounts wal) = None"
    using assms(4) by (simp add: find_None_iff)
  then show ?thesis
    using verifyTxRequest_after_signature [OF assms(1-3), of wal appDomain]
    by (simp add: UNAUTHORIZED_TX_REQUEST_def)
qed

theorem verifyTxRequest_unauthorized_witness:
  "decodeToken (mockCrypto transferRequest) ''token''
     = Inr \<lparr>header = ''ES256K'', payload = transferRequest, signature = ''sig''\<rparr> \<and>
   getTransactionVersionFromRequest transferRequest = Inr Mainnet \<and>
   verifyAsync (mockCrypto transferRequest) ''ES256k'' (publicKey transferRequest) ''token''
     = Inr True \<and>
   \<not> accountMatches (mockCrypto transferRequest) (publicKey transferRequest)
       (stxAddress transferRequest) Mainnet ''app.example'' strangerAccount \<and>
   verifyTxRequest (mockCrypto transferRequest) ''token'' strangerWallet ''app.example''
     = Inl (Error ''The transaction request provided is not signed by this wallet.'')"
proof -
  let ?tok = "\<lparr>header = ''ES256K'', payload = transferRequest, signature = ''sig''\<rparr>"
  have h1: "decodeToken (mockCrypto transferRequest) ''token'' = Inr ?tok"
    by (simp add: mockCrypto_def)
  have h2: "getTransactionVersionFromRequest (payload ?tok) = Inr Mainnet"
    by (simp add: getTransactionVersionFromRequest_def transferRequest_def)
  have h3: "verifyAsync (mockCrypto transferRequest) ''ES256k'' (publicKey (payload ?tok)) ''token''
      = Inr True"
    by (simp add: mockCrypto_def)
  have n: "\<not> accountMatches (mockCrypto transferRequest) (publicKey transferRequest)
       (stxAddress transferRequest) Mainnet ''app.example'' strangerAccount"
    by (simp add: accountMatches_def mockCrypto_def transferRequest_def strangerAccount_def)
  then have h4: "\<forall>acct \<in> set (accounts strangerWallet).
      \<not> accountMatches (mockCrypto transferRequest) (publicKey (payload ?tok))
          (stxAddress (payload ?tok)) Mainnet ''app.example'' acct"
    by (simp add: strangerWallet_def)
  from verifyTxRequest_unauthorized [OF h1 h2 h3 h4] h1 h2 h3 n show ?thesis by simp
qed

text \<open>
  The claim as stated fails for a token with an unrecognised network version: the
  signature verifies, the only account derives another application key, and the error is
  the network one.
\<close>

theorem verifyTxRequest_unauthorized_counterexample:
  "verifyAsync (mockCrypto oddRequest) ''ES256k'' (publicKey oddRequest) ''token'' = Inr True \<and>
   publicKey oddRequest = ''pub:apps1@app.example'' \<and>
   getPublicKeyFromPrivate (mockCrypto oddRequest)
       (getAppPrivateKey (mockCrypto oddRequest) strangerAccount ''app.example'')
     = ''pub:apps9@app.example'' \<and>
   verifyTxRequest (mockCrypto oddRequest) ''token'' strangerWallet ''app.example''
     = Inl (Error ''Invalid network version provided'')"
  by (simp add: verifyTxRequest_def getTransactionVersionFromRequest_def mockCrypto_def
      oddRequest_def transferRequest_def oddDescriptor_def strangerWallet_def strangerAccount_def)

text \<open>
  \<^bold>\<open>C3\<close>. A token whose payload carries a network whose version is neither Mainnet
  nor Testnet makes \<open>verifyTxRequest\<close> fail with the network-version error, and it does
  so before the signature is looked at: the outcome is the same whatever the verifier
  and the key derivations are replaced with, also a verifier that throws when called.
\<close>

theorem verifyTxRequest_invalid_network_first:
  assumes "decodeToken lib requestToken = Inr tok"
      and "network (payload tok) = Some n"
      and "networkVersion n \<noteq> Mainnet" and "networkVersion n \<noteq> Testnet"
  shows "verifyTxRequest lib requestToken wal appDomain =
           Inl (Error ''Invalid network version provided'') \<and>
         verifyTxRequest
           (lib\<lparr>verifyAsync := verifier, getAppPrivateKey := deriveApp,
                getPublicKeyFromPrivate := derivePublic, getAddressFromPrivateKey := deriveAddress\<rparr>)
           requestToken wal appDomain =
           Inl (Error ''Invalid network version provided'')"
  using assms getTransactionVersionFromRequest_invalid [OF assms(2-4)]
  by (simp add: verifyTxRequest_def Let_def)

theorem verifyTxRequest_invalid_network_first_witness:
  "network oddRequest = Some (Custom oddDescriptor) \<and>
   networkVersion (Custom oddDescriptor) = OtherVersion 5 \<and>
   verifyTxRequest (mockCrypto oddRequest) ''token'' oneAccountWallet ''app.example''
     = Inl (Error ''Invalid network version provided'') \<and>
   verifyTxRequest ((mockCrypto oddRequest)\<lparr>verifyAsync := failingVerifier\<rparr>)
       ''token'' oneAccountWallet ''app.example''
     = Inl (Error ''Invalid network version provided'')"
proof -
  let ?tok = "\<lparr>header = ''ES256K'', payload = oddRequest, signature = ''sig''\<rparr>"
  have h1: "decodeToken (mockCrypto oddRequest) ''token'' = Inr ?tok"
    by (simp add: mockCrypto_def)
  have h2: "network (payload ?tok) = Some (Custom oddDescriptor)"
    by (simp add: oddRequest_def)
  have v: "networkVersion (Custom oddDescriptor) = OtherVersion 5"
    by (simp add: oddDescriptor_def)
  have h3: "networkVersion (Custom oddDescriptor) \<noteq> Mainnet"
   and h4: "networkVersion (Custom oddDescriptor) \<noteq> Testnet"
    by (simp_all add: oddDescriptor_def)
  from verifyTxRequest_invalid_network_first [OF h1 h2 h3 h4,
      where wal = oneAccountWallet and appDomain = "''app.example''"
        and verifier = failingVerifier
        and deriveApp = "getAppPrivateKey (mockCrypto oddRequest)"
        and derivePublic = "getPublicKeyFromPrivate (mockCrypto oddRequest)"
        and deriveAddress = "getAddressFromPrivateKey (mockCrypto oddRequest)"]
  show ?thesis using h2 v by simp
qed

section \<open>Properties of the Payload Normalizer and the Transaction Builder\<close>

lemma txType_resolveNetwork: "txType (resolveNetwork txData) = txType txData"
  by (simp add: resolveNetwork_def)

lemma generateTransaction_dispatch:
  "generateTransaction lib txData senderKey nonce =
     (case txType txData of
        ContractCall \<Rightarrow> generateContractCallTx lib (resolveNetwork txData) senderKey nonce
      | ContractDeploy \<Rightarrow> generateContractDeployTx lib (resolveNetwork txData) senderKey nonce
      | STXTransfer \<Rightarrow> generateSTXTransferTx lib (resolveNetwork txData) senderKey nonce
      | OtherType s \<Rightarrow> Inl (Error (''Invalid Transaction Type: '' @ s)))"
proof (cases "txType txData")
  case ContractCall
  then show ?thesis
    by (cases "generateContractCallTx lib (resolveNetwork txData) senderKey nonce")
       (simp_all add: generateTransaction_def Let_def txType_resolveNetwork)
next
  case ContractDeploy
  then show ?thesis
    by (cases "generateContractDeployTx lib (resolveNetwork txData) senderKey nonce")
       (simp_all add: generateTransaction_def Let_def txType_resolveNetwork)
next
  case STXTransfer
  then show ?thesis
    by (cases "generateSTXTransferTx lib (resolveNetwork txData) senderKey nonce")
       (simp_all add: generateTransaction_def Let_def txType_resolveNetwork)
next
  case (OtherType s)
  then show ?thesis
    by (simp add: generateTransaction_def Let_def txType_resolveNetwork)
qed

text \<open>
  The normalizer reads only the post-condition decoder and the big-number constructor of
  the library, and each construction path reads only its own constructor.
\<close>

lemma normalizePostCondition_lib:
  assumes "deserializePostCondition lib' = deserializePostCondition lib"
      and "newBN lib' = newBN lib"
  shows "normalizePostCondition lib' = normalizePostCondition lib"
  by (rule ext)
     (simp add: normalizePostCondition_def assms
        split: postConditionEntry.splits option.splits sum.splits)

lemma getPostConditions_lib:
  assumes "deserializePostCondition lib' = deserializePostCondition lib"
      and "newBN lib' = newBN lib"
  shows "getPostConditions lib' = getPostConditions lib"
  by (rule ext)
     (simp add: getPostConditions_def normalizePostCondition_lib [OF assms] split: option.splits)

lemma nonceBN_lib:
  assumes "newBN lib' = newBN lib"
  shows "nonceBN lib' = nonceBN lib"
  by (rule ext) (simp add: nonceBN_def assms split: option.splits sum.splits)

lemma generateContractCallTx_lib:
  "generateContractCallTx (lib\<lparr>makeContractDeploy := d, makeSTXTokenTransfer := t\<rparr>) =
   generateContractCallTx lib"
proof -
  have p: "getPostConditions (lib\<lparr>makeContractDeploy := d, makeSTXTokenTransfer := t\<rparr>) =
      getPostConditions lib"
    by (rule getPostConditions_lib) simp_all
  have n: "nonceBN (lib\<lparr>makeContractDeploy := d, makeSTXTokenTransfer := t\<rparr>) = nonceBN lib"
    by (rule nonceBN_lib) simp
  show ?thesis
    by (rule ext)+ (simp add: generateContractCallTx_def p n split: sum.splits)
qed

lemma generateContractDeployTx_lib:
  "generateContractDeployTx (lib\<lparr>makeContractCall := c, makeSTXTokenTransfer := t\<rparr>) =
   generateContractDeployTx lib"
proof -
  have p: "getPostConditions (lib\<lparr>makeContractCall := c, makeSTXTokenTransfer := t\<rparr>) =
      getPostConditions lib"
    by (rule getPostConditions_lib) simp_all
  have n: "nonceBN (lib\<lparr>makeContractCall := c, makeSTXTokenTransfer := t\<rparr>) = nonceBN lib"
    by (rule nonceBN_lib) simp
  show ?thesis
    by (rule ext)+ (simp add: generateContractDeployTx_def p n split: sum.splits)
qed

lemma generateSTXTransferTx_lib:
  "generateSTXTransferTx (lib\<lparr>makeContractCall := c, makeContractDeploy := d\<rparr>) =
   generateSTXTransferTx lib"
proof -
  have n: "nonceBN (lib\<lparr>makeContractCall := c, makeContractDeploy := d\<rparr>) = nonceBN lib"
    by (rule nonceBN_lib) simp
  show ?thesis
    by (rule ext)+ (simp add: generateSTXTransferTx_def n split: sum.splits)
qed

text \<open>
  \<^bold>\<open>C4\<close>. For a payload tagged ContractCall, ContractDeploy or STXTransfer,
  \<open>generateTransaction\<close> is the construction path of that tag, run on the payload with
  its network resolved, and no other path: the outcome stays the same when the other two
  constructors are replaced by anything (also by constructors that throw as soon as they
  are called). For any other tag \<open>s\<close> it fails with the message
  \<^verbatim>\<open>Invalid Transaction Type: \<close> followed by \<open>s\<close>, and no constructor is consulted.
\<close>

theorem generateTransaction_dispatches_on_tag:
  "(txType txData = ContractCall \<longrightarrow>
      generateTransaction lib txData senderKey nonce =
        generateContractCallTx lib (resolveNetwork txData) senderKey nonce \<and>
      generateTransaction (lib\<lparr>makeContractDeploy := otherDeploy, makeSTXTokenTransfer := otherTransfer\<rparr>)
          txData senderKey nonce =
        generateContractCallTx lib (resolveNetwork txData) senderKey nonce) \<and>
   (txType txData = ContractDeploy \<longrightarrow>
      generateTransaction lib txData senderKey nonce =
        generateContractDeployTx lib (resolveNetwork txData) senderKey nonce \<and>
      generateTransaction (lib\<lparr>makeContractCall := otherCall, makeSTXTokenTransfer := otherTransfer\<rparr>)
          txData senderKey nonce =
        generateContractDeployTx lib (resolveNetwork txData) senderKey nonce) \<and>
   (txType txData = STXTransfer \<longrightarrow>
      generateTransaction lib txData senderKey nonce =
        generateSTXTransferTx lib (resolveNetwork txData) senderKey nonce \<and>
      generateTransaction (lib\<lparr>makeContractCall := otherCall, makeContractDeploy := otherDeploy\<rparr>)
          txData senderKey nonce =
        generateSTXTransferTx lib (resolveNetwork txData) senderKey nonce) \<and>
   (txType txData = OtherType s \<longrightarrow>
      generateTransaction lib txData senderKey nonce =
        Inl (Error (''Invalid Transaction Type: '' @ s)) \<and>
      generateTransaction
          (lib\<lparr>makeContractCall := otherCall, makeContractDeploy := otherDeploy,
               makeSTXTokenTransfer := otherTransfer\<rparr>)
          txData senderKey nonce =
        Inl (Error (''Invalid Transaction Type: '' @ s)))"
  by (simp add: generateTransaction_dispatch generateContractCallTx_lib
      generateContractDeployTx_lib generateSTXTransferTx_lib)

text \<open>
  One payload per tag, each built with the other constructors replaced by ones that
  throw when called.
\<close>

theorem generateTransaction_dispatches_on_tag_witness:
  "generateTransaction
       (mockStacks\<lparr>makeContractDeploy := throwingDeploy, makeSTXTokenTransfer := throwingTransfer\<rparr>)
       callRequest ''key'' None = Inr ''call on default-testnet'' \<and>
   generateTransaction
       (mockStacks\<lparr>makeContractCall := throwingCall, makeSTXTokenTransfer := throwingTransfer\<rparr>)
       deployRequest ''key'' None = Inr ''deploy on default-testnet'' \<and>
   generateTransaction
       (mockStacks\<lparr>makeContractCall := throwingCall, makeContractDeploy := throwingDeploy\<rparr>)
       transferRequest ''key'' None = Inr ''transfer on default-testnet'' \<and>
   generateTransaction
       (mockStacks\<lparr>makeContractCall := throwingCall, makeContractDeploy := throwingDeploy,
                   makeSTXTokenTransfer := throwingTransfer\<rparr>)
       bogusRequest ''key'' None = Inl (Error ''Invalid Transaction Type: bogus'')"
proof -
  have t1: "txType callRequest = ContractCall" and t2: "txType deployRequest = ContractDeploy"
   and t3: "txType transferRequest = STXTransfer" and t4: "txType bogusRequest = OtherType ''bogus''"
    by (simp_all add: callRequest_def deployRequest_def bogusRequest_def transferRequest_def)
  have r1: "generateContractCallTx mockStacks (resolveNetwork callRequest) ''key'' None
      = Inr ''call on default-testnet''"
    by (simp add: generateContractCallTx_def getPostConditions_def nonceBN_def resolveNetwork_def
        mockStacks_def callRequest_def transferRequest_def)
  have r2: "generateContractDeployTx mockStacks (resolveNetwork deployRequest) ''key'' None
      = Inr ''deploy on default-testnet''"
    by (simp add: generateContractDeployTx_def getPostConditions_def nonceBN_def resolveNetwork_def
        mockStacks_def deployRequest_def transferRequest_def)
  have r3: "generateSTXTransferTx mockStacks (resolveNetwork transferRequest) ''key'' None
      = Inr ''transfer on default-testnet''"
    by (simp add: generateSTXTransferTx_def nonceBN_def resolveNetwork_def
        mockStacks_def mockBN_def hexValue_def transferRequest_def)
  from generateTransaction_dispatches_on_tag
      [where txData = callRequest and lib = mockStacks and senderKey = "''key''"
        and nonce = None and otherDeploy = throwingDeploy and otherTransfer = throwingTransfer]
    generateTransaction_dispatches_on_tag
      [where txData = deployRequest and lib = mockStacks and senderKey = "''key''"
        and nonce = None and otherCall = throwingCall and otherTransfer = throwingTransfer]
    generateTransaction_dispatches_on_tag
      [where txData = transferRequest and lib = mockStacks and senderKey = "''key''"
        and nonce = None and otherCall = throwingCall and otherDeploy = throwingDeploy]
    generateTransaction_dispatches_on_tag
      [where txData = bogusRequest and lib = mockStacks and senderKey = "''key''"
        and nonce = None and s = "''bogus''" and otherCall = throwingCall
        and otherDeploy = throwingDeploy and otherTransfer = throwingTransfer]
  show ?thesis
    by (simp add: t1 t2 t3 t4 r1 r2 r3)
qed





text \<open>
  \<^bold>\<open>C8\<close>. When the payload carries a network whose version is Testnet and that has
  no fee-estimate method, \<open>generateTransaction\<close> overwrites it with the default testnet
  object, and the construction path of the payload's tag runs on the payload so changed
  (every path hands the payload's \<open>network\<close> to its constructor). When the payload's
  network has the method, the payload reaches the construction path as it came.
\<close>

theorem generateTransaction_network_resolution:
  assumes "network txData = Some n"
  shows "(networkVersion n = Testnet \<and> \<not> hasFeeEstimateApiUrl n \<longrightarrow>
            resolveNetwork txData = txData\<lparr>network := Some StacksTestnet\<rparr> \<and>
            generateTransaction lib txData senderKey nonce =
              (case txType txData of
                 ContractCall \<Rightarrow>
                   generateContractCallTx lib (txData\<lparr>network := Some StacksTestnet\<rparr>) senderKey nonce
               | ContractDeploy \<Rightarrow>
                   generateContractDeployTx lib (txData\<lparr>network := Some StacksTestnet\<rparr>) senderKey nonce
               | STXTransfer \<Rightarrow>
                   generateSTXTransferTx lib (txData\<lparr>network := Some StacksTestnet\<rparr>) senderKey nonce
               | OtherType s \<Rightarrow> Inl (Error (''Invalid Transaction Type: '' @ s)))) \<and>
         (hasFeeEstimateApiUrl n \<longrightarrow>
            resolveNetwork txData = txData \<and>
            generateTransaction lib txData senderKey nonce =
              (case txType txData of
                 ContractCall \<Rightarrow> generateContractCallTx lib txData senderKey nonce
               | ContractDeploy \<Rightarrow> generateContractDeployTx lib txData senderKey nonce
               | STXTransfer \<Rightarrow> generateSTXTransferTx lib txData senderKey nonce
               | OtherType s \<Rightarrow> Inl (Error (''Invalid Transaction Type: '' @ s))))"
proof (intro conjI impI)
  assume "networkVersion n = Testnet \<and> \<not> hasFeeEstimateApiUrl n"
  with assms show a: "resolveNetwork txData = txData\<lparr>network := Some StacksTestnet\<rparr>"
    by (simp add: resolveNetwork_def)
  show "generateTransaction lib txData senderKey nonce =
      (case txType txData of
         ContractCall \<Rightarrow>
           generateContractCallTx lib (txData\<lparr>network := Some StacksTestnet\<rparr>) senderKey nonce
       | ContractDeploy \<Rightarrow>
           generateContractDeployTx lib (txData\<lparr>network := Some StacksTestnet\<rparr>) senderKey nonce
       | STXTransfer \<Rightarrow>
           generateSTXTransferTx lib (txData\<lparr>network := Some StacksTestnet\<rparr>) senderKey nonce
       | OtherType s \<Rightarrow> Inl (Error (''Invalid Transaction Type: '' @ s)))"
    unfolding generateTransaction_dispatch a ..
next
  assume "hasFeeEstimateApiUrl n"
  with assms show b: "resolveNetwork txData = txData"
    by (simp add: resolveNetwork_def)
  show "generateTransaction lib txData senderKey nonce =
      (case txType txData of
         ContractCall \<Rightarrow> generateContractCallTx lib txData senderKey nonce
       | ContractDeploy \<Rightarrow> generateContractDeployTx lib txData senderKey nonce
       | STXTransfer \<Rightarrow> generateSTXTransferTx lib txData senderKey nonce
       | OtherType s \<Rightarrow> Inl (Error (''Invalid Transaction Type: '' @ s)))"
    unfolding generateTransaction_dispatch b ..
qed

text \<open>
  The stand-in constructors name the network they were given: the default testnet object
  for the descriptor without the method, the descriptor's own endpoint for the one with.
\<close>

theorem generateTransaction_network_resolution_witness:
  "network testnetRequest = Some (Custom testnetDescriptor) \<and>
   networkVersion (Custom testnetDescriptor) = Testnet \<and>
   \<not> hasFeeEstimateApiUrl (Custom testnetDescriptor) \<and>
   generateTransaction mockStacks testnetRequest ''key'' None = Inr ''transfer on default-testnet'' \<and>
   network capableRequest = Some (Custom capableDescriptor) \<and>
   hasFeeEstimateApiUrl (Custom capableDescriptor) \<and>
   generateTransaction mockStacks capableRequest ''key'' None = Inr ''transfer on http://localhost:3999''"
proof -
  have h1: "network testnetRequest = Some (Custom testnetDescriptor)"
   and h2: "network capableRequest = Some (Custom capableDescriptor)"
    by (simp_all add: testnetRequest_def capableRequest_def transferRequest_def)
  have p1: "networkVersion (Custom testnetDescriptor) = Testnet \<and>
      \<not> hasFeeEstimateApiUrl (Custom testnetDescriptor)"
   and p2: "hasFeeEstimateApiUrl (Custom capableDescriptor)"
    by (simp_all add: testnetDescriptor_def capableDescriptor_def)
  have t1: "txType testnetRequest = STXTransfer" and t2: "txType capableRequest = STXTransfer"
    by (simp_all add: testnetRequest_def capableRequest_def transferRequest_def)
  have r1: "generateSTXTransferTx mockStacks (testnetRequest\<lparr>network := Some StacksTestnet\<rparr>)
      ''key'' None = Inr ''transfer on default-testnet''"
    by (simp add: generateSTXTransferTx_def nonceBN_def mockStacks_def mockBN_def hexValue_def
        testnetRequest_def transferRequest_def)
  have r2: "generateSTXTransferTx mockStacks capableRequest ''key'' None
      = Inr ''transfer on http://localhost:3999''"
    by (simp add: generateSTXTransferTx_def nonceBN_def mockStacks_def mockBN_def hexValue_def
        capableRequest_def transferRequest_def capableDescriptor_def)
  from generateTransaction_network_resolution
      [OF h1, where lib = mockStacks and senderKey = "''key''" and nonce = None] p1 t1 r1
  have g1: "generateTransaction mockStacks testnetRequest ''key'' None
      = Inr ''transfer on default-testnet''"
    by simp
  from generateTransaction_network_resolution
      [OF h2, where lib = mockStacks and senderKey = "''key''" and nonce = None] p2 t2 r2
  have g2: "generateTransaction mockStacks capableRequest ''key'' None
      = Inr ''transfer on http://localhost:3999''"
    by simp
  from h1 h2 p1 p2 g1 g2 show ?thesis by blast
qed

text \<open>
  \<^bold>\<open>C10\<close>. For a payload without a network, \<open>generateTransaction\<close> puts the default
  testnet object in its place and builds on that; the default mainnet object can only be
  the resolved network of a payload that carries a network whose version is Mainnet. The
  verifier resolves the same absent network to the Mainnet version, and (once the token
  decodes to that payload and its signature verifies) it scans the wallet with addresses
  derived under Mainnet.
\<close>

theorem absent_network_testnet_builder_mainnet_verifier:
  assumes "network txData = None"
  shows "resolveNetwork txData = txData\<lparr>network := Some StacksTestnet\<rparr> \<and>
         generateTransaction lib txData senderKey nonce =
           (case txType txData of
              ContractCall \<Rightarrow>
                generateContractCallTx lib (txData\<lparr>network := Some StacksTestnet\<rparr>) senderKey nonce
            | ContractDeploy \<Rightarrow>
                generateContractDeployTx lib (txData\<lparr>network := Some StacksTestnet\<rparr>) senderKey nonce
            | STXTransfer \<Rightarrow>
                generateSTXTransferTx lib (txData\<lparr>network := Some StacksTestnet\<rparr>) senderKey nonce
            | OtherType s \<Rightarrow> Inl (Error (''Invalid Transaction Type: '' @ s))) \<and>
         (network (resolveNetwork other) = Some StacksMainnet \<longrightarrow>
            (\<exists>n. network other = Some n \<and> networkVersion n = Mainnet)) \<and>
         getTransactionVersionFromRequest txData = Inr Mainnet \<and>
         (decodeToken keys requestToken = Inr tok \<and> payload tok = txData \<and>
          verifyAsync keys ''ES256k'' (publicKey txData) requestToken = Inr True \<longrightarrow>
            verifyTxRequest keys requestToken wal appDomain =
              (case find (accountMatches keys (publicKey txData) (stxAddress txData) Mainnet appDomain)
                      (accounts wal) of
                 None \<Rightarrow> Inl (Error UNAUTHORIZED_TX_REQUEST)
               | Some foundAccount \<Rightarrow> Inr txData))"
proof -
  have a: "resolveNetwork txData = txData\<lparr>network := Some StacksTestnet\<rparr>"
    using assms by (simp add: resolveNetwork_def)
  have b: "network (resolveNetwork other) = Some StacksMainnet \<longrightarrow>
            (\<exists>n. network other = Some n \<and> networkVersion n = Mainnet)"
    by (cases "network other") (auto simp: resolveNetwork_def split: if_splits)
  have c: "getTransactionVersionFromRequest txData = Inr Mainnet"
    using assms by (rule getTransactionVersionFromRequest_absent)
  have d: "decodeToken keys requestToken = Inr tok \<and> payload tok = txData \<and>
          verifyAsync keys ''ES256k'' (publicKey txData) requestToken = Inr True \<longrightarrow>
            verifyTxRequest keys requestToken wal appDomain =
              (case find (accountMatches keys (publicKey txData) (stxAddress txData) Mainnet appDomain)
                      (accounts wal) of
                 None \<Rightarrow> Inl (Error UNAUTHORIZED_TX_REQUEST)
               | Some foundAccount \<Rightarrow> Inr txData)"
    using c verifyTxRequest_after_signature [of keys requestToken tok Mainnet wal appDomain]
    by auto
  have e: "generateTransaction lib txData senderKey nonce =
           (case txType txData of
              ContractCall \<Rightarrow>
                generateContractCallTx lib (txData\<lparr>network := Some StacksTestnet\<rparr>) senderKey nonce
            | ContractDeploy \<Rightarrow>
                generateContractDeployTx lib (txData\<lparr>network := Some StacksTestnet\<rparr>) senderKey nonce
            | STXTransfer \<Rightarrow>
                generateSTXTransferTx lib (txData\<lparr>network := Some StacksTestnet\<rparr>) senderKey nonce
            | OtherType s \<Rightarrow> Inl (Error (''Invalid Transaction Type: '' @ s)))"
    unfolding generateTransaction_dispatch a ..
  from a b c d e show ?thesis by blast
qed

text \<open>
  One request without a network: it is built on the default testnet object, while the
  verifier accepts it for the account whose Mainnet address (\<open>SP\<close>...) is the target.
\<close>

theorem absent_network_testnet_builder_mainnet_verifier_witness:
  "network targetRequest = None \<and>
   generateTransaction mockStacks targetRequest ''key'' None = Inr ''transfer on default-testnet'' \<and>
   network (resolveNetwork mainnetRequest) = Some StacksMainnet \<and>
   network mainnetRequest = Some (Custom mainnetDescriptor) \<and>
   getTransactionVersionFromRequest targetRequest = Inr Mainnet \<and>
   getAddressFromPrivateKey (mockCrypto targetRequest) (stxPrivateKey secondAccount) Mainnet
     = ''SPk2'' \<and>
   verifyTxRequest (mockCrypto targetRequest) ''token'' twoAccountWallet ''app.example''
     = Inr targetRequest"
proof -
  let ?tok = "\<lparr>header = ''ES256K'', payload = targetRequest, signature = ''sig''\<rparr>"
  have h: "network targetRequest = None"
    by (simp add: targetRequest_def transferRequest_def)
  have t: "txType targetRequest = STXTransfer"
    by (simp add: targetRequest_def transferRequest_def)
  have r: "generateSTXTransferTx mockStacks (targetRequest\<lparr>network := Some StacksTestnet\<rparr>)
      ''key'' None = Inr ''transfer on default-testnet''"
    by (simp add: generateSTXTransferTx_def nonceBN_def mockStacks_def mockBN_def hexValue_def
        targetRequest_def transferRequest_def)
  have m1: "network (resolveNetwork mainnetRequest) = Some StacksMainnet"
   and m2: "network mainnetRequest = Some (Custom mainnetDescriptor)"
    by (simp_all add: resolveNetwork_def mainnetRequest_def transferRequest_def mainnetDescriptor_def)
  have k: "decodeToken (mockCrypto targetRequest) ''token'' = Inr ?tok \<and>
      payload ?tok = targetRequest \<and>
      verifyAsync (mockCrypto targetRequest) ''ES256k'' (publicKey targetRequest) ''token'' = Inr True"
    by (simp add: mockCrypto_def)
  have f: "find (accountMatches (mockCrypto targetRequest) (publicKey targetRequest)
        (stxAddress targetRequest) Mainnet ''app.example'') (accounts twoAccountWallet)
      = Some secondAccount"
    by (simp add: accountMatches_def mockCrypto_def targetRequest_def transferRequest_def
        twoAccountWallet_def firstAccount_def secondAccount_def)
  have a: "getAddressFromPrivateKey (mockCrypto targetRequest) (stxPrivateKey secondAccount) Mainnet
      = ''SPk2''"
    by (simp add: mockCrypto_def secondAccount_def)
  note c = absent_network_testnet_builder_mainnet_verifier
      [OF h, where lib = mockStacks and senderKey = "''key''" and nonce = None
        and other = mainnetRequest and keys = "mockCrypto targetRequest"
        and requestToken = "''token''" and tok = ?tok and wal = twoAccountWallet
        and appDomain = "''app.example''"]
  from c t r have g: "generateTransaction mockStacks targetRequest ''key'' None
      = Inr ''transfer on default-testnet''"
    by simp
  from c have v: "getTransactionVersionFromRequest targetRequest = Inr Mainnet"
    by blast
  from c k f have w: "verifyTxRequest (mockCrypto targetRequest) ''token'' twoAccountWallet
      ''app.example'' = Inr targetRequest"
    by simp
  from h g m1 m2 v a w show ?thesis by blast
qed

section \<open>Properties of the Broadcaster\<close>

lemma replaceFirst_quote: "replaceFirst [c] [] s = remove1 c s"
  by (induction s) auto

lemma finishTransaction_accepted:
  assumes "broadcastTX lib nodeUrl (serialize lib tx) = Inr res"
      and "ok res"
      and "json lib (bodyText res) = Inr (JString txIdJson)"
  shows "finishTransaction lib tx nodeUrl =
           Inr \<lparr>txId = ''0x'' @ remove1 dquote txIdJson,
                txRaw = ''0x'' @ toHex (serialize lib tx)\<rparr>"
  using assms by (simp add: finishTransaction_def Let_def replaceFirst_quote)


text \<open>
  \<^bold>\<open>C6\<close> (as amended). The claim says the serialized form is returned on every
  outcome path. \<open>finishTransaction\<close> returns it on the success path only: whenever it
  returns a result, \<open>txRaw\<close> is \<open>0x\<close> followed by the hexadecimal text of the serialized
  bytes, and an accepted response that decodes to a string gives such a result. On a
  rejection it throws an error whose message is composed from the response body alone
  (or is the generic one), and on a transport failure the transport's error propagates:
  in both cases the caller gets the error and no serialized form.
\<close>

theorem finishTransaction_outcomes:
  "(finishTransaction lib tx nodeUrl = Inr r \<longrightarrow> txRaw r = ''0x'' @ toHex (serialize lib tx)) \<and>
   (broadcastTX lib nodeUrl (serialize lib tx) = Inr res \<and> ok res \<and>
    json lib (bodyText res) = Inr (JString txIdJson) \<longrightarrow>
      finishTransaction lib tx nodeUrl =
        Inr \<lparr>txId = ''0x'' @ replaceFirst [dquote] [] txIdJson,
             txRaw = ''0x'' @ toHex (serialize lib tx)\<rparr>) \<and>
   (broadcastTX lib nodeUrl (serialize lib tx) = Inr res \<and> \<not> ok res \<longrightarrow>
      (\<exists>e. finishTransaction lib tx nodeUrl = Inl e)) \<and>
   (broadcastTX lib nodeUrl (serialize lib tx) = Inr res \<and> \<not> ok res \<and>
    json lib (bodyText res) = Inr body \<longrightarrow>
      finishTransaction lib tx nodeUrl =
        Inl (Error (if truthyStr (property body ''error'')
                    then templateText (property body ''error'') @ '' - '' @
                         templateText (property body ''reason'')
                    else ''Unable to submit transaction''))) \<and>
   (broadcastTX lib nodeUrl (serialize lib tx) = Inl e \<longrightarrow>
      finishTransaction lib tx nodeUrl = Inl e)"
  by (auto simp: finishTransaction_def Let_def split: sum.splits jsonBody.splits if_splits)

theorem finishTransaction_outcomes_witness:
  "finishTransaction acceptingNode sampleTx ''http://node''
     = Inr \<lparr>txId = ''0xabc123'', txRaw = ''0x0001abff''\<rparr> \<and>
   toHex (serialize acceptingNode sampleTx) = ''0001abff'' \<and>
   finishTransaction rejectingNode sampleTx ''http://node''
     = Inl (Error ''RejectTransaction - BadNonce'') \<and>
   finishTransaction unreachableNode sampleTx ''http://node''
     = Inl (TypeError ''Failed to fetch'')"
proof -
  let ?accepted = "\<lparr>ok = True, bodyText = quoted ''abc123''\<rparr>"
  let ?body = "JObject [(''error'', ''RejectTransaction''), (''reason'', ''BadNonce'')]"
  let ?rejected = "\<lparr>ok = False, bodyText = rejectionText\<rparr>"
  have s: "toHex (serialize acceptingNode sampleTx) = ''0001abff''"
    by (simp add: acceptingNode_def sampleTx_def toHex_def byteHex_def hexDigit_def)
  have b1: "broadcastTX acceptingNode ''http://node'' (serialize acceptingNode sampleTx)
        = Inr ?accepted \<and> ok ?accepted \<and>
      json acceptingNode (bodyText ?accepted) = Inr (JString ''abc123'')"
    by (simp add: acceptingNode_def mockJson_def)
  have b2: "broadcastTX rejectingNode ''http://node'' (serialize rejectingNode sampleTx)
        = Inr ?rejected \<and> \<not> ok ?rejected \<and>
      json rejectingNode (bodyText ?rejected) = Inr ?body"
    by (simp add: rejectingNode_def mockJson_def quoted_def escapedQuote_def rejectionText_def
        dquote_def)
  have b3: "broadcastTX unreachableNode ''http://node'' (serialize unreachableNode sampleTx)
        = Inl (TypeError ''Failed to fetch'')"
    by (simp add: unreachableNode_def)
  from finishTransaction_outcomes
      [where lib = acceptingNode and tx = sampleTx and nodeUrl = "''http://node''"
        and res = ?accepted and txIdJson = "''abc123''"] b1 s
  have r1: "finishTransaction acceptingNode sampleTx ''http://node''
      = Inr \<lparr>txId = ''0xabc123'', txRaw = ''0x0001abff''\<rparr>"
    by (simp add: dquote_def)
  from finishTransaction_outcomes
      [where lib = rejectingNode and tx = sampleTx and nodeUrl = "''http://node''"
        and res = ?rejected and body = ?body] b2
  have r2: "finishTransaction rejectingNode sampleTx ''http://node''
      = Inl (Error ''RejectTransaction - BadNonce'')"
    by simp
  from finishTransaction_outcomes
      [where lib = unreachableNode and tx = sampleTx and nodeUrl = "''http://node''"
        and e = "TypeError ''Failed to fetch''"] b3
  have r3: "finishTransaction unreachableNode sampleTx ''http://node''
      = Inl (TypeError ''Failed to fetch'')"
    by simp
  from r1 s r2 r3 show ?thesis by blast
qed

text \<open>
  The claim as stated fails on a rejection and on a transport failure: the caller gets
  an error, and the serialized form \<open>0001abff\<close> is not in it.
\<close>

theorem finishTransaction_rejection_counterexample:
  "toHex (serialize rejectingNode sampleTx) = ''0001abff'' \<and>
   finishTransaction rejectingNode sampleTx ''http://node''
     = Inl (Error ''RejectTransaction - BadNonce'') \<and>
   finishTransaction unreachableNode sampleTx ''http://node''
     = Inl (TypeError ''Failed to fetch'')"
  by (simp add: finishTransaction_def rejectingNode_def unreachableNode_def mockJson_def quoted_def
      escapedQuote_def rejectionText_def sampleTx_def toHex_def byteHex_def hexDigit_def dquote_def)

section \<open>Properties of the Submission Orchestrator\<close>

lemma tryCatch_completes:
  fixes m :: "unit run"
  assumes "\<And>e. snd (handler e) = Inr ()"
  shows "snd (tryCatch m handler) = Inr ()"
  using assms by (cases "snd m") (simp_all add: tryCatch_def)

lemma cleanup_runs:
  fixes m :: "unit run"
  assumes "snd m = Inr ()"
      and "loading = Inr ()" and "closing = Inr ()" and "idling = Inr ()" and "changing = Inr ()"
  shows "andThen (perform SetIsLoading loading) (\<lambda>_.
         andThen m (\<lambda>_.
         andThen (perform OnClose closing) (\<lambda>_.
         andThen (perform SetIsIdle idling) (\<lambda>_.
         perform (DoChangeScreen HOME) changing))))
       = ((SetIsLoading # fst m) @ [OnClose, SetIsIdle, DoChangeScreen HOME], Inr ())"
  using assms by (simp add: andThen_def perform_def)

text \<open>
  \<^bold>\<open>C9\<close> (as amended). The claim is for every invocation. The cleanup is three
  statements after the \<^verbatim>\<open>try\<close>/\<^verbatim>\<open>catch\<close>, not a \<^verbatim>\<open>finally\<close> block, so an
  exception that the \<^verbatim>\<open>catch\<close> does not take (thrown by the close callback, say)
  skips what is left of it: see the counterexample below. What holds: when the loading
  setter, the close callback, the idle setter, the screen change and the toast of the
  \<^verbatim>\<open>catch\<close> handler return normally, then whatever the transaction (absent or
  present) and whatever the broadcast, the nonce update, the revalidation and the toasts
  inside the \<^verbatim>\<open>try\<close> block do (resolve or throw), the handler completes normally and
  the last three calls it makes are the close callback, clearing the loading flag and
  the change to the home screen, in this order.
\<close>

theorem useHandleSubmitTransaction_always_cleans_up:
  assumes "setIsLoading env = Inr ()"
      and "toastError env ''Something went wrong'' = Inr ()"
      and "onClose env = Inr ()"
      and "setIsIdle env = Inr ()"
      and "doChangeScreen env HOME = Inr ()"
  shows "\<exists>before. useHandleSubmitTransaction env transaction stacksNetwork =
           (before @ [OnClose, SetIsIdle, DoChangeScreen HOME], Inr ())"
proof (cases transaction)
  case None
  show ?thesis
    unfolding useHandleSubmitTransaction_def None option.case
    by (rule exI, rule cleanup_runs) (simp_all add: assms)
next
  case (Some tx)
  show ?thesis
    unfolding useHandleSubmitTransaction_def Some option.case
    by (rule exI, rule cleanup_runs, rule tryCatch_completes) (simp_all add: assms perform_def)
qed

text \<open>
  The broadcast succeeds and the nonce update throws: the exception is caught, the
  generic message is shown and the three cleanup calls follow.
\<close>

theorem useHandleSubmitTransaction_always_cleans_up_witness:
  "setIsLoading failingBookkeeping = Inr () \<and>
   toastError failingBookkeeping ''Something went wrong'' = Inr () \<and>
   onClose failingBookkeeping = Inr () \<and>
   setIsIdle failingBookkeeping = Inr () \<and>
   doChangeScreen failingBookkeeping HOME = Inr () \<and>
   useHandleSubmitTransaction failingBookkeeping (Some sampleTx) StacksTestnet =
     ([SetIsLoading, BroadcastTransaction, DoSetLatestNonce, ToastError ''Something went wrong'']
        @ [OnClose, SetIsIdle, DoChangeScreen HOME], Inr ())"
proof -
  have h1: "setIsLoading failingBookkeeping = Inr ()"
   and h2: "toastError failingBookkeeping ''Something went wrong'' = Inr ()"
   and h3: "onClose failingBookkeeping = Inr ()"
   and h4: "setIsIdle failingBookkeeping = Inr ()"
   and h5: "doChangeScreen failingBookkeeping HOME = Inr ()"
    by (simp_all add: failingBookkeeping_def)
  have f: "fst (useHandleSubmitTransaction failingBookkeeping (Some sampleTx) StacksTestnet) =
      [SetIsLoading, BroadcastTransaction, DoSetLatestNonce, ToastError ''Something went wrong'',
       OnClose, SetIsIdle, DoChangeScreen HOME]"
    by (simp add: useHandleSubmitTransaction_def failingBookkeeping_def andThen_def
        tryCatch_def perform_def)
  from useHandleSubmitTransaction_always_cleans_up
      [OF h1 h2 h3 h4 h5, where transaction = "Some sampleTx" and stacksNetwork = StacksTestnet]
  obtain before where
    r: "useHandleSubmitTransaction failingBookkeeping (Some sampleTx) StacksTestnet =
      (before @ [OnClose, SetIsIdle, DoChangeScreen HOME], Inr ())"
    by blast
  with f have "before @ [OnClose, SetIsIdle, DoChangeScreen HOME] =
      [SetIsLoading, BroadcastTransaction, DoSetLatestNonce, ToastError ''Something went wrong'']
        @ [OnClose, SetIsIdle, DoChangeScreen HOME]"
    by simp
  then have "before =
      [SetIsLoading, BroadcastTransaction, DoSetLatestNonce, ToastError ''Something went wrong'']"
    by (simp only: append_same_eq)
  with r h1 h2 h3 h4 h5 show ?thesis by simp
qed

text \<open>
  The claim as stated fails when the close callback throws: with no transaction at all,
  the handler ends with the callback's exception after two calls, and neither the
  loading flag is cleared nor the screen changed.
\<close>

theorem useHandleSubmitTransaction_throwing_close_counterexample:
  "onClose throwingClose = Inl (Error ''onClose failed'') \<and>
   useHandleSubmitTransaction throwingClose None StacksTestnet =
     ([SetIsLoading, OnClose], Inl (Error ''onClose failed'')) \<and>
   useHandleSubmitTransaction throwingClose (Some sampleTx) StacksTestnet =
     ([SetIsLoading, BroadcastTransaction, DoSetLatestNonce, Revalidate,
       ToastSuccess ''Transaction submitted!'', OnClose], Inl (Error ''onClose failed''))"
  by (simp add: useHandleSubmitTransaction_def throwingClose_def andThen_def tryCatch_def
      perform_def)

text \<open>
  A broadcast that the node rejects for a bad nonce: the handler shows the message
  \<open>Incorrect nonce.\<close>, leaves the nonce and the caches alone, and cleans up.
\<close>

lemma useHandleSubmitTransaction_bad_nonce:
  "useHandleSubmitTransaction rejectingCollaborators (Some sampleTx) StacksTestnet =
     ([SetIsLoading, BroadcastTransaction, ToastError ''Incorrect nonce.'',
       OnClose, SetIsIdle, DoChangeScreen HOME], Inr ())"
  by (simp add: useHandleSubmitTransaction_def rejectingCollaborators_def andThen_def
      tryCatch_def perform_def)

end
